theory Spec2Isabelle
  imports Main
begin

section \<open>Python values\<close>

text \<open>
  A Python \<^verbatim>\<open>str\<close> is a sequence of Unicode code points, and slicing
  (\<^verbatim>\<open>str(e)[:80]\<close>) counts code points; so a string is a list of code points.
  Dictionary keys, header names and collection names of the program are ASCII literals
  and stay HOL strings.
\<close>

type_synonym pystr = "nat list"

definition ustr :: "string \<Rightarrow> pystr" where
  "ustr s = map of_char s"

text \<open>The three symbols of \<^verbatim>\<open>main.py\<close> outside ASCII: U+2705, U+274C, and U+26A0 U+FE0F.\<close>

definition check_mark :: pystr where
  "check_mark = [0x2705]"

definition cross_mark :: pystr where
  "cross_mark = [0x274C]"

definition warning_sign :: pystr where
  "warning_sign = [0x26A0, 0xFE0F]"

text \<open>
  An exception is an instance of \<^verbatim>\<open>Exception\<close> with the text \<^verbatim>\<open>str(e)\<close> gives.
  The interpreter's exit and interrupt signals, which are not \<^verbatim>\<open>Exception\<close>s, are
  outside the model.
\<close>

datatype exn = Exception (str_exn: pystr)

text \<open>
  A dictionary keeps its keys in insertion order and holds each key once:
  \<^verbatim>\<open>d[k] = v\<close> overwrites in place or appends, \<^verbatim>\<open>d.get(k)\<close> reads.
\<close>

primrec dict_set :: "string \<Rightarrow> 'v \<Rightarrow> (string \<times> 'v) list \<Rightarrow> (string \<times> 'v) list" where
  "dict_set k v [] = [(k, v)]"
| "dict_set k v (p # ps) = (if fst p = k then (k, v) # ps else p # dict_set k v ps)"

definition keys :: "(string \<times> 'v) list \<Rightarrow> string list" where
  "keys d = map fst d"

text \<open>
  The values a stored document holds: \<^verbatim>\<open>None\<close>, booleans, integers, strings, the
  store's identifiers (\<^verbatim>\<open>ObjectId\<close>, a 96-bit number) and timestamps (a
  \<^verbatim>\<open>datetime\<close>, carried as the text \<^verbatim>\<open>str\<close> renders it to).
\<close>

datatype pyval = PNone | PBool bool | PInt int | PStr pystr | PObjectId nat | PDatetime pystr

type_synonym document = "(string \<times> pyval) list"

text \<open>Truth value testing, as \<^verbatim>\<open>if x:\<close> does it.\<close>

fun truthy :: "pyval \<Rightarrow> bool" where
  "truthy PNone = False"
| "truthy (PBool b) = b"
| "truthy (PInt i) = (i \<noteq> 0)"
| "truthy (PStr s) = (s \<noteq> [])"
| "truthy (PObjectId n) = True"
| "truthy (PDatetime t) = True"

text \<open>\<^verbatim>\<open>d.get(k)\<close>: the value at the key, \<^verbatim>\<open>None\<close> when the key is absent.\<close>

definition dict_get :: "document \<Rightarrow> string \<Rightarrow> pyval" where
  "dict_get d k = (case map_of d k of Some v \<Rightarrow> v | None \<Rightarrow> PNone)"

function dec :: "nat \<Rightarrow> pystr" where
  "dec n = (if n < 10 then [48 + n] else dec (n div 10) @ [48 + n mod 10])"
  by pat_completeness auto
termination
  by (relation "measure id") auto

declare dec.simps [simp del]

definition hexdigit :: "nat \<Rightarrow> nat" where
  "hexdigit d = (if d < 10 then 48 + d else 87 + d)"

definition hex24 :: "nat \<Rightarrow> pystr" where
  "hex24 n = map (\<lambda>k. hexdigit (n div 16 ^ k mod 16)) (rev [0..<24])"

text \<open>\<^verbatim>\<open>str(x)\<close>.\<close>

fun py_str :: "pyval \<Rightarrow> pystr" where
  "py_str PNone = ustr ''None''"
| "py_str (PBool b) = (if b then ustr ''True'' else ustr ''False'')"
| "py_str (PInt i) = (if i < 0 then 45 # dec (nat (- i)) else dec (nat i))"
| "py_str (PStr s) = s"
| "py_str (PObjectId n) = hex24 n"
| "py_str (PDatetime t) = t"

section \<open>The event schema and the document store adapter\<close>

text \<open>
  Modelled from the spec: the class \<^verbatim>\<open>TrafficEvent\<close> of \<^verbatim>\<open>schemas.py\<close>, which is
  not among the sources. The spec's data model gives it the caller's \<^verbatim>\<open>path\<close>,
  \<^verbatim>\<open>event\<close> and optional \<^verbatim>\<open>source\<close>, and the derived optional \<^verbatim>\<open>user_agent\<close>
  and \<^verbatim>\<open>ip\<close>, with no constraint beyond their types. The arguments of the constructor
  are \<^verbatim>\<open>path\<close>, \<^verbatim>\<open>source\<close>, \<^verbatim>\<open>event\<close>, \<^verbatim>\<open>user_agent\<close>, \<^verbatim>\<open>ip\<close>, in the order
  \<^verbatim>\<open>track_event\<close> passes them.
\<close>

datatype TrafficEvent =
  TrafficEvent pystr "pystr option" pystr "pystr option" "pystr option"

definition opt_val :: "pystr option \<Rightarrow> pyval" where
  "opt_val x = (case x of None \<Rightarrow> PNone | Some s \<Rightarrow> PStr s)"

text \<open>
  Modelled from the spec: the fields of an event as the document that is stored; an
  absent optional field is stored as null (\<open>a record inserted with source=null surfaces
  as source: null\<close>).
\<close>

fun model_dump :: "TrafficEvent \<Rightarrow> document" where
  "model_dump (TrafficEvent path source event user_agent ip) =
     [(''path'', PStr path),
      (''event'', PStr event),
      (''source'', opt_val source),
      (''user_agent'', opt_val user_agent),
      (''ip'', opt_val ip)]"

text \<open>
  Modelled from the spec: the module \<^verbatim>\<open>database.py\<close> (\<^verbatim>\<open>db\<close>,
  \<^verbatim>\<open>create_document\<close>, \<^verbatim>\<open>get_documents\<close>), which is not among the sources.
  The handle \<^verbatim>\<open>db\<close> is \<^verbatim>\<open>None\<close> while the store is not initialised. The driver
  behind it is external, so what it answers is part of the state: the outcome of
  \<^verbatim>\<open>getattr(db, 'name', None)\<close> and of \<^verbatim>\<open>db.list_collection_names()\<close>, the fault
  every insert and find raises while the store is unreachable, the timestamp the store
  layer puts on a new document when it has auto-timestamps, the documents of each
  collection in insertion order, the next identifier the store assigns, and the number
  of inserts the driver has been asked for so far.
\<close>

record database =
  name_attr :: "exn + pystr option"
  list_collection_names :: "exn + pystr list"
  outage :: "exn option"
  auto_timestamp :: "pystr option"
  collections :: "(string \<times> document list) list"
  next_oid :: nat
  insert_calls :: nat

type_synonym store = "database option"

definition not_initialized :: exn where
  "not_initialized = Exception (ustr ''Database not available'')"

definition documents :: "database \<Rightarrow> string \<Rightarrow> document list" where
  "documents d c = (case map_of (collections d) c of Some ds \<Rightarrow> ds | None \<Rightarrow> [])"

definition stored :: "store \<Rightarrow> string \<Rightarrow> document list" where
  "stored s c = (case s of Some d \<Rightarrow> documents d c | None \<Rightarrow> [])"


definition timestamps :: "database \<Rightarrow> document" where
  "timestamps d =
     (case auto_timestamp d of
        Some t \<Rightarrow> [(''created_at'', PDatetime t), (''updated_at'', PDatetime t)]
      | None \<Rightarrow> [])"

text \<open>
  Modelled from the spec: \<open>insert(collection, document) -> id\<close> adds exactly one document,
  under an identifier the store assigns, and returns that identifier as a string; a
  failing insert stores nothing. Each insert the driver is asked for is counted, the
  failing ones too; without a handle the driver is not reached.
\<close>

definition create_document :: "string \<Rightarrow> TrafficEvent \<Rightarrow> store \<Rightarrow> (exn + pystr) \<times> store" where
  "create_document c data s =
     (case s of
        None \<Rightarrow> (Inl not_initialized, s)
      | Some d \<Rightarrow>
          (case outage d of
             Some e \<Rightarrow> (Inl e, Some (d\<lparr>insert_calls := Suc (insert_calls d)\<rparr>))
           | None \<Rightarrow>
               let oid = PObjectId (next_oid d);
                   doc = (''_id'', oid) # model_dump data @ timestamps d
               in (Inr (py_str oid),
                   Some (d\<lparr>collections := dict_set c (documents d c @ [doc]) (collections d),
                           next_oid := Suc (next_oid d),
                           insert_calls := Suc (insert_calls d)\<rparr>))))"

text \<open>
  Modelled from the spec: \<open>find(collection, filter, limit) -> list of documents\<close>, the
  filter an equality constraint on each of its fields, the limit the maximum number of
  documents returned, in the store's own order. A find changes nothing, and the
  documents it returns are the caller's own copies.
\<close>

definition matches :: "document \<Rightarrow> document \<Rightarrow> bool" where
  "matches filt doc = list_all (\<lambda>(k, v). map_of doc k = Some v) filt"

definition get_documents ::
  "string \<Rightarrow> document \<Rightarrow> int \<Rightarrow> store \<Rightarrow> (exn + document list) \<times> store" where
  "get_documents c filt limit s =
     (case s of
        None \<Rightarrow> (Inl not_initialized, s)
      | Some d \<Rightarrow>
          (case outage d of
             Some e \<Rightarrow> (Inl e, s)
           | None \<Rightarrow> (Inr (take (nat limit) (filter (matches filt) (documents d c))), s)))"

section \<open>The diagnostics handler\<close>

datatype rval = RNone | RStr pystr | RList "pystr list"

type_synonym response = "(string \<times> rval) list"

definition initial_response :: response where
  "initial_response =
     [(''backend'', RStr (check_mark @ ustr '' Running'')),
      (''database'', RStr (cross_mark @ ustr '' Not Available'')),
      (''database_url'', RNone),
      (''database_name'', RNone),
      (''connection_status'', RStr (ustr ''Not Connected'')),
      (''collections'', RList [])]"

text \<open>
  The body of the outer \<^verbatim>\<open>try\<close>: it returns the dictionary as it stands when the
  block is left, with the exception that left it, if any.
\<close>

definition test_database_body ::
  "store \<Rightarrow> pystr option \<Rightarrow> response \<Rightarrow> exn option \<times> response" where
  "test_database_body db database_url response =
     (case db of
        Some d \<Rightarrow>
          let response = dict_set ''database'' (RStr (check_mark @ ustr '' Available'')) response;
              response = dict_set ''database_url''
                (RStr (case database_url of
                         Some u \<Rightarrow> if u \<noteq> [] then check_mark @ ustr '' Set''
                                   else cross_mark @ ustr '' Not Set''
                       | None \<Rightarrow> cross_mark @ ustr '' Not Set'')) response
          in (case name_attr d of
                Inl e \<Rightarrow> (Some e, response)
              | Inr n \<Rightarrow>
                  let response = dict_set ''database_name''
                        (RStr (case n of Some s \<Rightarrow> if s \<noteq> [] then s else ustr ''Unknown''
                                 | None \<Rightarrow> ustr ''Unknown'')) response;
                      response = dict_set ''connection_status'' (RStr (ustr ''Connected'')) response
                  in (case list_collection_names d of
                        Inr names \<Rightarrow>
                          let response = dict_set ''collections'' (RList (take 10 names)) response;
                              response = dict_set ''database''
                                (RStr (check_mark @ ustr '' Connected & Working'')) response
                          in (None, response)
                      | Inl e \<Rightarrow>
                          (None, dict_set ''database''
                             (RStr (warning_sign @ ustr '' Connected but Error: '' @ take 80 (str_exn e)))
                             response)))
      | None \<Rightarrow>
          (None, dict_set ''database''
             (RStr (warning_sign @ ustr '' Available but not initialized'')) response))"

definition test_database :: "store \<Rightarrow> pystr option \<Rightarrow> exn + response" where
  "test_database db database_url =
     (case test_database_body db database_url initial_response of
        (None, response) \<Rightarrow> Inr response
      | (Some e, response) \<Rightarrow>
          Inr (dict_set ''database'' (RStr (cross_mark @ ustr '' Error: '' @ take 80 (str_exn e))) response))"

section \<open>The ingestion handler\<close>

text \<open>
  The request body, as the JSON object it parses to. The model has its string and null
  members; \<^verbatim>\<open>TrackEventIn\<close> declares no member of another type.
\<close>

datatype jval = JNull | JStr pystr

type_synonym body = "string \<rightharpoonup> jval"

text \<open>The fields of \<^verbatim>\<open>TrackEventIn\<close>, in the order declared: \<^verbatim>\<open>path\<close>, \<^verbatim>\<open>event\<close>, \<^verbatim>\<open>source\<close>.\<close>

datatype TrackEventIn = TrackEventIn pystr pystr "pystr option"

datatype TrackEventOut = TrackEventOut (id_field: pystr)

datatype validation_error = Field_required string | String_type string

text \<open>
  The framework builds the handler's \<^verbatim>\<open>payload\<close> from the body by the declarations of
  \<^verbatim>\<open>TrackEventIn\<close>: \<^verbatim>\<open>path: str\<close> has no default, so it is required and a string;
  \<^verbatim>\<open>event: str = "view"\<close> takes its default when the member is absent;
  \<^verbatim>\<open>source: Optional[str] = None\<close> may be absent or null. A string is taken as it is:
  no declaration constrains its length.
\<close>

definition path_errors :: "body \<Rightarrow> validation_error list" where
  "path_errors b =
     (case b ''path'' of
        None \<Rightarrow> [Field_required ''path'']
      | Some JNull \<Rightarrow> [String_type ''path'']
      | Some (JStr s) \<Rightarrow> [])"

definition event_errors :: "body \<Rightarrow> validation_error list" where
  "event_errors b =
     (case b ''event'' of
        Some JNull \<Rightarrow> [String_type ''event'']
      | _ \<Rightarrow> [])"

definition validate_TrackEventIn :: "body \<Rightarrow> validation_error list + TrackEventIn" where
  "validate_TrackEventIn b =
     (case path_errors b @ event_errors b of
        [] \<Rightarrow>
          Inr (TrackEventIn
                 (case b ''path'' of Some (JStr s) \<Rightarrow> s | _ \<Rightarrow> [])
                 (case b ''event'' of Some (JStr s) \<Rightarrow> s | _ \<Rightarrow> ustr ''view'')
                 (case b ''source'' of Some (JStr s) \<Rightarrow> Some s | _ \<Rightarrow> None))
      | errs \<Rightarrow> Inl errs)"

text \<open>
  The request: its headers under their lower-case names (a lookup takes the first
  entry of a name), and the peer address of the connection, when the server knows it.
\<close>

record address =
  host :: pystr
  port :: nat

record request =
  headers :: "(string \<times> pystr) list"
  client :: "address option"

datatype HTTPException = HTTPException (status_code: nat) (detail: pystr)

fun track_event ::
  "TrackEventIn \<Rightarrow> request \<Rightarrow> store \<Rightarrow> (HTTPException + TrackEventOut) \<times> store" where
  "track_event (TrackEventIn path event source) request s =
     (let ip = (case map_of (headers request) ''x-forwarded-for'' of
                  Some v \<Rightarrow> Some v
                | None \<Rightarrow> (case client request of Some a \<Rightarrow> Some (host a) | None \<Rightarrow> None));
          ua = map_of (headers request) ''user-agent'';
          evt = TrafficEvent path source event ua ip
      in case create_document ''trafficevent'' evt s of
           (Inr inserted_id, s') \<Rightarrow> (Inr (TrackEventOut inserted_id), s')
         | (Inl e, s') \<Rightarrow> (Inl (HTTPException 500 (str_exn e)), s'))"

text \<open>
  \<^verbatim>\<open>POST /api/track\<close>: a body that does not validate is answered with status 422 and the
  handler does not run; what the handler raises is answered with its status and detail.
\<close>

datatype content = Id pystr | Detail pystr | Validation "validation_error list"

record reply =
  status :: nat
  content :: content

definition post_api_track :: "body \<Rightarrow> request \<Rightarrow> store \<Rightarrow> reply \<times> store" where
  "post_api_track b request s =
     (case validate_TrackEventIn b of
        Inl errs \<Rightarrow> (\<lparr>status = 422, content = Validation errs\<rparr>, s)
      | Inr payload \<Rightarrow>
          (case track_event payload request s of
             (Inr out, s') \<Rightarrow> (\<lparr>status = 200, content = Id (id_field out)\<rparr>, s')
           | (Inl h, s') \<Rightarrow> (\<lparr>status = status_code h, content = Detail (detail h)\<rparr>, s')))"

section \<open>The query handler\<close>

text \<open>Lines 82 to 86: the filter, built by truth value tests on the two arguments.\<close>

definition stats_filter :: "pystr option \<Rightarrow> pystr option \<Rightarrow> document" where
  "stats_filter path event =
     (let filt = [];
          filt = (case path of
                    Some p \<Rightarrow> if p \<noteq> [] then dict_set ''path'' (PStr p) filt else filt
                  | None \<Rightarrow> filt);
          filt = (case event of
                    Some e \<Rightarrow> if e \<noteq> [] then dict_set ''event'' (PStr e) filt else filt
                  | None \<Rightarrow> filt)
      in filt)"

text \<open>Lines 91 to 95: one document made ready for JSON.\<close>

definition normalize :: "document \<Rightarrow> document" where
  "normalize d =
     (let d = dict_set ''_id'' (PStr (py_str (dict_get d ''_id''))) d;
          d = (if truthy (dict_get d ''created_at'')
               then dict_set ''created_at'' (PStr (py_str (dict_get d ''created_at''))) d else d);
          d = (if truthy (dict_get d ''updated_at'')
               then dict_set ''updated_at'' (PStr (py_str (dict_get d ''updated_at''))) d else d)
      in d)"

text \<open>The loop of lines 89 to 96, \<open>out\<close> its accumulator.\<close>

fun normalize_all :: "document list \<Rightarrow> document list \<Rightarrow> document list" where
  "normalize_all [] out = out"
| "normalize_all (d # docs) out = normalize_all docs (out @ [normalize d])"

datatype StatsOut = StatsOut (items: "document list")

text \<open>An omitted \<^verbatim>\<open>limit\<close> takes the default of the signature, 50.\<close>

definition get_stats ::
  "pystr option \<Rightarrow> pystr option \<Rightarrow> int option \<Rightarrow> store \<Rightarrow> (HTTPException + StatsOut) \<times> store" where
  "get_stats path event limit s =
     (let limit = (case limit of Some n \<Rightarrow> n | None \<Rightarrow> 50);
          filt = stats_filter path event
      in case get_documents ''trafficevent'' filt limit s of
           (Inr docs, s') \<Rightarrow> (Inr (StatsOut (normalize_all docs [])), s')
         | (Inl e, s') \<Rightarrow> (Inl (HTTPException 500 (str_exn e)), s'))"

section \<open>Sequences of requests\<close>

datatype call =
  Track TrackEventIn request
| Stats "pystr option" "pystr option" "int option"
| Test "pystr option"

datatype outcome =
  Tracked "HTTPException + TrackEventOut"
| Listed "HTTPException + StatsOut"
| Tested "exn + response"

fun handler :: "call \<Rightarrow> store \<Rightarrow> outcome \<times> store" where
  "handler (Track payload request) s =
     (case track_event payload request s of (r, s') \<Rightarrow> (Tracked r, s'))"
| "handler (Stats path event limit) s =
     (case get_stats path event limit s of (r, s') \<Rightarrow> (Listed r, s'))"
| "handler (Test database_url) s = (Tested (test_database s database_url), s)"

fun serve :: "call list \<Rightarrow> store \<Rightarrow> outcome list \<times> store" where
  "serve [] s = ([], s)"
| "serve (c # cs) s =
     (case handler c s of (r, s') \<Rightarrow> (case serve cs s' of (rs, s'') \<Rightarrow> (r # rs, s'')))"

fun is_write :: "call \<Rightarrow> bool" where
  "is_write (Track payload request) = True"
| "is_write (Stats path event limit) = False"
| "is_write (Test database_url) = False"

section \<open>Reference values of the statements\<close>

text \<open>The six fields of the diagnostics report, in the order the handler writes them.\<close>

definition report_keys :: "string list" where
  "report_keys =
     [''backend'', ''database'', ''database_url'', ''database_name'',
      ''connection_status'', ''collections'']"

text \<open>The status text that describes each state of the adapter.\<close>

definition diagnosis :: "store \<Rightarrow> pystr" where
  "diagnosis db =
     (case db of
        None \<Rightarrow> warning_sign @ ustr '' Available but not initialized''
      | Some d \<Rightarrow>
          (case name_attr d of
             Inl e \<Rightarrow> cross_mark @ ustr '' Error: '' @ take 80 (str_exn e)
           | Inr n \<Rightarrow>
               (case list_collection_names d of
                  Inl e \<Rightarrow> warning_sign @ ustr '' Connected but Error: '' @ take 80 (str_exn e)
                | Inr names \<Rightarrow> check_mark @ ustr '' Connected & Working'')))"

text \<open>A store whose collection listing times out, and which holds nothing yet.\<close>

definition demo_db :: database where
  "demo_db =
     \<lparr>name_attr = Inr (Some (ustr ''traffic'')),
      list_collection_names = Inl (Exception (ustr ''timed out'')),
      outage = None, auto_timestamp = None, collections = [], next_oid = 0,
      insert_calls = 0\<rparr>"

text \<open>A document without an identifier, whose timestamps hold zero and null.\<close>

definition bare_doc :: document where
  "bare_doc = [(''path'', PStr (ustr ''/x'')), (''created_at'', PInt 0), (''updated_at'', PNone)]"

text \<open>
  A reachable store that holds two events: one with a \<^verbatim>\<open>created_at\<close> timestamp and a
  null \<^verbatim>\<open>updated_at\<close>, one with both timestamps.
\<close>

definition seeded_db :: database where
  "seeded_db =
     \<lparr>name_attr = Inr (Some (ustr ''traffic'')),
      list_collection_names = Inr [ustr ''trafficevent''],
      outage = None, auto_timestamp = Some (ustr ''2024-05-01 10:00:00''),
      collections =
        [(''trafficevent'',
          [[(''_id'', PObjectId 1), (''path'', PStr (ustr ''/home'')),
            (''event'', PStr (ustr ''view'')),
            (''created_at'', PDatetime (ustr ''2024-04-30 09:00:00'')), (''updated_at'', PNone)],
           [(''_id'', PObjectId 2), (''path'', PStr (ustr ''/x'')),
            (''event'', PStr (ustr ''click'')),
            (''created_at'', PDatetime (ustr ''2024-04-30 09:30:00'')),
            (''updated_at'', PDatetime (ustr ''2024-04-30 09:30:00''))]])],
      next_oid = 3, insert_calls = 2\<rparr>"

text \<open>
  The spec's example: a visit of \<^verbatim>\<open>/home\<close> from a newsletter, sent with a
  \<^verbatim>\<open>User-Agent\<close> header and no \<^verbatim>\<open>X-Forwarded-For\<close>, on a connection whose peer
  address is known.
\<close>

definition home_visit :: TrackEventIn where
  "home_visit = TrackEventIn (ustr ''/home'') (ustr ''view'') (Some (ustr ''newsletter''))"

definition direct_request :: request where
  "direct_request =
     \<lparr>headers = [(''host'', ustr ''example.org''), (''user-agent'', ustr ''TestAgent/1.0'')],
      client = Some \<lparr>host = ustr ''203.0.113.9'', port = 50000\<rparr>\<rparr>"

text \<open>A body whose \<^verbatim>\<open>path\<close> is the empty string, and a body without \<^verbatim>\<open>path\<close>.\<close>

definition empty_path_body :: body where
  "empty_path_body = [''path'' \<mapsto> JStr []]"

definition no_path_body :: body where
  "no_path_body = [''event'' \<mapsto> JStr (ustr ''view'')]"



text \<open>
  The spec's data model for the two timestamps of a stored event: each is optional
  (absent, or null) or a timestamp.
\<close>

definition optional_timestamp :: "pyval option \<Rightarrow> bool" where
  "optional_timestamp x =
     (case x of
        None \<Rightarrow> True
      | Some PNone \<Rightarrow> True
      | Some (PDatetime t) \<Rightarrow> True
      | Some v \<Rightarrow> False)"



text \<open>The document an insert adds, and the address the handler derives.\<close>

definition new_document :: "database \<Rightarrow> TrafficEvent \<Rightarrow> document" where
  "new_document d data = (''_id'', PObjectId (next_oid d)) # model_dump data @ timestamps d"

definition peer_or_forwarded :: "request \<Rightarrow> pystr option" where
  "peer_or_forwarded request =
     (case map_of (headers request) ''x-forwarded-for'' of
        Some v \<Rightarrow> Some v
      | None \<Rightarrow> (case client request of Some a \<Rightarrow> Some (host a) | None \<Rightarrow> None))"

section \<open>Dictionaries\<close>

lemma map_of_dict_set: "map_of (dict_set k v d) = (map_of d)(k \<mapsto> v)"
  by (induction d) (auto simp: fun_eq_iff)

lemma keys_dict_set_mem: "k \<in> set (keys d) \<Longrightarrow> keys (dict_set k v d) = keys d"
  by (induction d) (auto simp: keys_def)

lemma set_keys_dict_set: "set (keys (dict_set k v d)) = insert k (set (keys d))"
  by (induction d) (auto simp: keys_def)

lemma dict_get_dict_set: "dict_get (dict_set k v d) k' = (if k' = k then v else dict_get d k')"
  by (simp add: dict_get_def map_of_dict_set)

section \<open>The diagnostics handler never fails\<close>

lemma keys_initial: "keys initial_response = report_keys"
  by (simp add: initial_response_def keys_def report_keys_def)

lemma body_keys:
  "keys r = report_keys \<Longrightarrow> keys (snd (test_database_body db url r)) = report_keys"
  by (auto simp: test_database_body_def Let_def keys_dict_set_mem report_keys_def
           split: option.splits sum.splits)

lemma body_database:
  "test_database_body db url r = (raised, r') \<Longrightarrow>
     (case raised of
        None \<Rightarrow> map_of r' ''database'' = Some (RStr (diagnosis db))
      | Some e \<Rightarrow> cross_mark @ ustr '' Error: '' @ take 80 (str_exn e) = diagnosis db)"
  by (auto simp: test_database_body_def diagnosis_def Let_def map_of_dict_set
           split: option.splits sum.splits)

text \<open>
  C3. Whatever the state of the adapter (handle not initialised, attribute access
  raising, collection listing raising, or all well), \<^verbatim>\<open>test_database\<close> returns a report
  and raises nothing; the report has exactly its six fields, and its \<^verbatim>\<open>database\<close> field
  is the status text that describes the state.
\<close>

theorem test_database_never_fails:
  "\<exists>r. test_database db database_url = Inr r \<and> keys r = report_keys \<and>
       map_of r ''database'' = Some (RStr (diagnosis db))"
proof (cases "test_database_body db database_url initial_response")
  case (Pair raised r')
  have k: "keys r' = report_keys"
    using body_keys[OF keys_initial, of db database_url] Pair by simp
  have d: "''database'' \<in> set (keys r')"
    by (simp add: k report_keys_def)
  show ?thesis
    using body_database[OF Pair] k
    by (cases raised)
       (simp_all add: test_database_def Pair keys_dict_set_mem[OF d] map_of_dict_set)
qed

theorem test_database_never_fails_witness:
  "\<exists>r. test_database (Some demo_db) None = Inr r \<and> keys r = report_keys \<and>
       map_of r ''database'' =
         Some (RStr (warning_sign @ ustr '' Connected but Error: timed out''))"
  using test_database_never_fails[of "Some demo_db" None]
  by (simp add: diagnosis_def demo_db_def ustr_def)

section \<open>The filter of the query handler\<close>

lemma keys_stats_filter:
  "keys (stats_filter path event) =
     (if \<exists>p. path = Some p \<and> p \<noteq> [] then [''path''] else []) @
     (if \<exists>e. event = Some e \<and> e \<noteq> [] then [''event''] else [])"
  by (auto simp: stats_filter_def keys_def split: option.splits)

text \<open>
  C2, as stated: the filter has the \<^verbatim>\<open>path\<close> field if and only if the \<^verbatim>\<open>path\<close> argument
  is not null. It fails for the empty string, which \<^verbatim>\<open>GET /api/stats?path=\<close> passes:
  the argument is not null, and the filter has no \<^verbatim>\<open>path\<close> field.
\<close>

theorem stats_filter_empty_path_counterexample:
  "\<not> ((Some [] \<noteq> (None :: pystr option)) =
      (''path'' \<in> set (keys (stats_filter (Some []) None))))"
  by (simp add: stats_filter_def keys_def)

text \<open>
  C2, amended. The filter has the \<^verbatim>\<open>path\<close> field if and only if the \<^verbatim>\<open>path\<close> argument
  is a non-empty string, and the \<^verbatim>\<open>event\<close> field if and only if the \<^verbatim>\<open>event\<close>
  argument is a non-empty string; it has no other field, and each field it has holds
  the argument's value.
\<close>

theorem stats_filter_keys:
  "(''path'' \<in> set (keys (stats_filter path event)) \<longleftrightarrow> (\<exists>p. path = Some p \<and> p \<noteq> [])) \<and>
   (''event'' \<in> set (keys (stats_filter path event)) \<longleftrightarrow> (\<exists>e. event = Some e \<and> e \<noteq> [])) \<and>
   set (keys (stats_filter path event)) \<subseteq> {''path'', ''event''} \<and>
   (\<forall>p. path = Some p \<and> p \<noteq> [] \<longrightarrow> map_of (stats_filter path event) ''path'' = Some (PStr p)) \<and>
   (\<forall>e. event = Some e \<and> e \<noteq> [] \<longrightarrow> map_of (stats_filter path event) ''event'' = Some (PStr e))"
proof -
  have k: "(''path'' \<in> set (keys (stats_filter path event)) \<longleftrightarrow> (\<exists>p. path = Some p \<and> p \<noteq> [])) \<and>
     (''event'' \<in> set (keys (stats_filter path event)) \<longleftrightarrow> (\<exists>e. event = Some e \<and> e \<noteq> [])) \<and>
     set (keys (stats_filter path event)) \<subseteq> {''path'', ''event''}"
    by (auto simp: keys_stats_filter)
  have p: "\<forall>p. path = Some p \<and> p \<noteq> [] \<longrightarrow>
             map_of (stats_filter path event) ''path'' = Some (PStr p)"
    by (auto simp: stats_filter_def Let_def map_of_dict_set split: option.splits)
  have e: "\<forall>e. event = Some e \<and> e \<noteq> [] \<longrightarrow>
             map_of (stats_filter path event) ''event'' = Some (PStr e)"
    by (auto simp: stats_filter_def Let_def map_of_dict_set split: option.splits)
  from k p e show ?thesis by blast
qed

theorem stats_filter_keys_witness:
  "keys (stats_filter (Some (ustr ''/x'')) (Some [])) = [''path''] \<and>
   map_of (stats_filter (Some (ustr ''/x'')) (Some [])) ''path'' = Some (PStr (ustr ''/x''))"
  using stats_filter_keys[of "Some (ustr ''/x'')" "Some []"]
  by (simp add: keys_stats_filter ustr_def)

section \<open>Normalisation of the documents read\<close>

lemma normalize_all_map: "normalize_all docs out = out @ map normalize docs"
  by (induction docs arbitrary: out) auto

lemma normalize_id: "dict_get (normalize d) ''_id'' = PStr (py_str (dict_get d ''_id''))"
  by (simp add: normalize_def Let_def dict_get_dict_set)

lemma normalize_stamp:
  "k = ''created_at'' \<or> k = ''updated_at'' \<Longrightarrow>
   dict_get (normalize d) k =
     (if truthy (dict_get d k) then PStr (py_str (dict_get d k)) else dict_get d k)"
  by (auto simp: normalize_def Let_def dict_get_dict_set)

lemma normalize_map_of_falsy:
  "k = ''created_at'' \<or> k = ''updated_at'' \<Longrightarrow> \<not> truthy (dict_get d k) \<Longrightarrow>
   map_of (normalize d) k = map_of d k"
  by (auto simp: normalize_def Let_def dict_get_dict_set map_of_dict_set)

lemma normalize_map_of_id:
  "map_of (normalize d) ''_id'' = Some (PStr (py_str (dict_get d ''_id'')))"
  by (simp add: normalize_def Let_def map_of_dict_set)

text \<open>
  C10. A document without the \<^verbatim>\<open>_id\<close> field leaves the normalisation with the string
  \<^verbatim>\<open>None\<close> as its identifier; a \<^verbatim>\<open>created_at\<close> or \<^verbatim>\<open>updated_at\<close> field that holds a
  falsy value keeps that value, unconverted.
\<close>

theorem normalize_missing_id:
  "(map_of d ''_id'' = None \<longrightarrow> map_of (normalize d) ''_id'' = Some (PStr (ustr ''None''))) \<and>
   (\<forall>k v. (k = ''created_at'' \<or> k = ''updated_at'') \<and> map_of d k = Some v \<and> \<not> truthy v
      \<longrightarrow> map_of (normalize d) k = Some v)"
proof (intro conjI allI impI)
  assume "map_of d ''_id'' = None"
  then show "map_of (normalize d) ''_id'' = Some (PStr (ustr ''None''))"
    by (simp add: normalize_map_of_id dict_get_def)
next
  fix k v
  assume a: "(k = ''created_at'' \<or> k = ''updated_at'') \<and> map_of d k = Some v \<and> \<not> truthy v"
  then have "\<not> truthy (dict_get d k)" by (simp add: dict_get_def)
  with a show "map_of (normalize d) k = Some v"
    using normalize_map_of_falsy[of k d] by simp
qed

theorem normalize_missing_id_witness:
  "map_of bare_doc ''_id'' = None \<and>
   map_of bare_doc ''created_at'' = Some (PInt 0) \<and> \<not> truthy (PInt 0) \<and>
   map_of bare_doc ''updated_at'' = Some PNone \<and> \<not> truthy PNone \<and>
   normalize bare_doc = bare_doc @ [(''_id'', PStr (ustr ''None''))]"
  using normalize_missing_id[of bare_doc]
  by (simp add: bare_doc_def normalize_def dict_get_def ustr_def)

section \<open>The query handler on what the store answers\<close>

lemmas eval_defs = get_stats_def get_documents_def stats_filter_def seeded_db_def documents_def
  matches_def normalize_def dict_get_def


section \<open>The ingestion handler\<close>

lemma documents_update:
  "documents (d\<lparr>collections := dict_set c x (collections d), next_oid := n,
      insert_calls := m\<rparr>) c' =
     (if c' = c then x else documents d c')"
  by (simp add: documents_def map_of_dict_set)

lemma documents_insert_calls: "documents (d\<lparr>insert_calls := m\<rparr>) c = documents d c"
  by (simp add: documents_def)

lemma create_document_ok:
  "outage d = None \<Longrightarrow>
   create_document c data (Some d) =
     (Inr (hex24 (next_oid d)),
      Some (d\<lparr>collections := dict_set c (documents d c @ [new_document d data]) (collections d),
              next_oid := Suc (next_oid d), insert_calls := Suc (insert_calls d)\<rparr>))"
  by (simp add: create_document_def new_document_def Let_def)

lemma create_document_fail:
  "create_document c data None = (Inl not_initialized, None)"
  "outage d = Some e \<Longrightarrow>
   create_document c data (Some d) = (Inl e, Some (d\<lparr>insert_calls := Suc (insert_calls d)\<rparr>))"
  by (simp_all add: create_document_def)

lemma track_event_ok:
  "outage d = None \<Longrightarrow>
   track_event (TrackEventIn path event source) request (Some d) =
     (Inr (TrackEventOut (hex24 (next_oid d))),
      Some (d\<lparr>collections :=
                dict_set ''trafficevent''
                  (documents d ''trafficevent'' @
                   [new_document d (TrafficEvent path source event
                      (map_of (headers request) ''user-agent'') (peer_or_forwarded request))])
                  (collections d),
              next_oid := Suc (next_oid d), insert_calls := Suc (insert_calls d)\<rparr>))"
  by (simp add: create_document_ok peer_or_forwarded_def Let_def)

lemma track_event_fail:
  "track_event payload request None = (Inl (HTTPException 500 (str_exn not_initialized)), None)"
  "outage d = Some e \<Longrightarrow>
   track_event payload request (Some d) =
     (Inl (HTTPException 500 (str_exn e)), Some (d\<lparr>insert_calls := Suc (insert_calls d)\<rparr>))"
  by (cases payload; simp add: create_document_fail Let_def)+

lemma track_event_fail_stored:
  "\<not> (\<exists>d. s = Some d \<and> outage d = None) \<Longrightarrow>
   stored (snd (track_event payload request s)) c = stored s c"
proof (cases s)
  case None
  then show ?thesis by (simp add: track_event_fail)
next
  case (Some d)
  assume "\<not> (\<exists>d. s = Some d \<and> outage d = None)"
  with Some obtain e where "outage d = Some e" by (cases "outage d") auto
  with Some show ?thesis
    by (simp add: track_event_fail stored_def documents_insert_calls)
qed

lemma track_event_Inr_reachable:
  "track_event payload request s = (Inr out, s') \<Longrightarrow> \<exists>d. s = Some d \<and> outage d = None"
proof (cases s)
  case None
  assume "track_event payload request s = (Inr out, s')"
  with None show ?thesis by (simp add: track_event_fail)
next
  case (Some d)
  assume t: "track_event payload request s = (Inr out, s')"
  show ?thesis
  proof (cases "outage d")
    case None
    with Some show ?thesis by simp
  next
    case (Some e)
    with t \<open>s = Some d\<close> show ?thesis by (simp add: track_event_fail)
  qed
qed



lemma post_api_track_valid:
  "validate_TrackEventIn b = Inr payload \<Longrightarrow>
   post_api_track b request s =
     (case track_event payload request s of
        (Inr out, s') \<Rightarrow> (\<lparr>status = 200, content = Id (id_field out)\<rparr>, s')
      | (Inl h, s') \<Rightarrow> (\<lparr>status = status_code h, content = Detail (detail h)\<rparr>, s'))"
  by (simp add: post_api_track_def)

lemma post_api_track_store:
  "validate_TrackEventIn b = Inr payload \<Longrightarrow>
   snd (post_api_track b request s) = snd (track_event payload request s)"
  by (cases "track_event payload request s"; cases "fst (track_event payload request s)")
     (auto simp: post_api_track_valid)




text \<open>
  C5. The document a successful \<^verbatim>\<open>track_event\<close> stores has as \<^verbatim>\<open>user_agent\<close> the value
  of the \<^verbatim>\<open>User-Agent\<close> header, null when the request has none, and as \<^verbatim>\<open>ip\<close> the value
  of the \<^verbatim>\<open>X-Forwarded-For\<close> header when the request has one, otherwise the peer
  address of the connection, otherwise null.
\<close>

theorem track_event_metadata:
  "track_event (TrackEventIn path event source) request s = (Inr out, s') \<Longrightarrow>
   \<exists>doc. stored s' ''trafficevent'' = stored s ''trafficevent'' @ [doc] \<and>
     map_of doc ''user_agent'' =
       Some (case map_of (headers request) ''user-agent'' of
               Some v \<Rightarrow> PStr v | None \<Rightarrow> PNone) \<and>
     map_of doc ''ip'' =
       Some (case map_of (headers request) ''x-forwarded-for'' of
               Some v \<Rightarrow> PStr v
             | None \<Rightarrow> (case client request of Some a \<Rightarrow> PStr (host a) | None \<Rightarrow> PNone))"
proof -
  assume t: "track_event (TrackEventIn path event source) request s = (Inr out, s')"
  have "\<exists>d. s = Some d \<and> outage d = None"
    using t by (rule track_event_Inr_reachable)
  then obtain d where s: "s = Some d" and up: "outage d = None" by blast
  show ?thesis
    using t unfolding s track_event_ok[OF up]
    by (auto simp: stored_def documents_update new_document_def peer_or_forwarded_def opt_val_def
             split: option.splits)
qed

theorem track_event_metadata_witness:
  "track_event home_visit direct_request (Some demo_db) =
     (Inr (TrackEventOut (hex24 0)),
      Some (demo_db\<lparr>collections :=
        [(''trafficevent'',
          [[(''_id'', PObjectId 0), (''path'', PStr (ustr ''/home'')),
            (''event'', PStr (ustr ''view'')), (''source'', PStr (ustr ''newsletter'')),
            (''user_agent'', PStr (ustr ''TestAgent/1.0'')),
            (''ip'', PStr (ustr ''203.0.113.9''))]])],
        next_oid := 1, insert_calls := 1\<rparr>)) \<and>
   map_of (headers direct_request) ''user-agent'' = Some (ustr ''TestAgent/1.0'') \<and>
   map_of (headers direct_request) ''x-forwarded-for'' = None \<and>
   client direct_request = Some \<lparr>host = ustr ''203.0.113.9'', port = 50000\<rparr>"
proof -
  have t: "track_event (TrackEventIn (ustr ''/home'') (ustr ''view'') (Some (ustr ''newsletter'')))
      direct_request (Some demo_db) =
     (Inr (TrackEventOut (hex24 0)),
      Some (demo_db\<lparr>collections :=
        [(''trafficevent'',
          [[(''_id'', PObjectId 0), (''path'', PStr (ustr ''/home'')),
            (''event'', PStr (ustr ''view'')), (''source'', PStr (ustr ''newsletter'')),
            (''user_agent'', PStr (ustr ''TestAgent/1.0'')),
            (''ip'', PStr (ustr ''203.0.113.9''))]])],
        next_oid := 1, insert_calls := 1\<rparr>))"
    by (simp add: direct_request_def demo_db_def create_document_def documents_def
        timestamps_def opt_val_def)
  show ?thesis
    using track_event_metadata[OF t] t by (simp add: home_visit_def direct_request_def)
qed

text \<open>
  C1, as stated: a request whose \<^verbatim>\<open>path\<close> is empty or missing is rejected with a 4xx
  status, so that every persisted event has a non-empty \<^verbatim>\<open>path\<close>. It fails on the body
  \<^verbatim>\<open>{"path": ""}\<close>: the answer is not a 4xx status, and the event is persisted with
  the empty \<^verbatim>\<open>path\<close>.
\<close>

theorem track_empty_path_counterexample:
  "\<not> (400 \<le> status (fst (post_api_track empty_path_body direct_request (Some demo_db))) \<and>
       status (fst (post_api_track empty_path_body direct_request (Some demo_db))) < 500) \<and>
   stored (snd (post_api_track empty_path_body direct_request (Some demo_db))) ''trafficevent'' =
     [[(''_id'', PObjectId 0), (''path'', PStr []), (''event'', PStr (ustr ''view'')),
       (''source'', PNone), (''user_agent'', PStr (ustr ''TestAgent/1.0'')),
       (''ip'', PStr (ustr ''203.0.113.9''))]]"
  by (simp add: post_api_track_def validate_TrackEventIn_def path_errors_def event_errors_def
        empty_path_body_def direct_request_def demo_db_def create_document_def documents_def
        timestamps_def opt_val_def stored_def)


lemma validate_missing_path:
  "\<forall>p. b ''path'' \<noteq> Some (JStr p) \<Longrightarrow> \<exists>errs. validate_TrackEventIn b = Inl errs"
  by (cases "b ''path''"; cases "the (b ''path'')")
     (auto simp: validate_TrackEventIn_def path_errors_def split: list.splits)

lemma validate_Inr_path:
  "validate_TrackEventIn b = Inr (TrackEventIn path event source) \<Longrightarrow> b ''path'' = Some (JStr path)"
  by (auto simp: validate_TrackEventIn_def path_errors_def
           split: list.splits option.splits jval.splits)

lemma validate_string_path:
  "b ''path'' = Some (JStr p) \<Longrightarrow> b ''event'' \<noteq> Some JNull \<Longrightarrow>
   \<exists>event source. validate_TrackEventIn b = Inr (TrackEventIn p event source)"
  by (auto simp: validate_TrackEventIn_def path_errors_def event_errors_def
           split: option.splits jval.splits)

text \<open>
  C1, amended. A body whose \<^verbatim>\<open>path\<close> is missing (absent, or null) is answered with
  status 422 and nothing is persisted. A body whose \<^verbatim>\<open>path\<close> is a string, the empty
  string too, passes validation, and is answered with status 200 when the store is
  reachable. Whatever the endpoint persists is one document whose \<^verbatim>\<open>path\<close> is present
  and is the string of the body.
\<close>

theorem post_api_track_path:
  "((\<forall>p. b ''path'' \<noteq> Some (JStr p)) \<longrightarrow>
      status (fst (post_api_track b request s)) = 422 \<and> snd (post_api_track b request s) = s) \<and>
   (\<forall>p d. b ''path'' = Some (JStr p) \<and> b ''event'' \<noteq> Some JNull \<and> s = Some d \<and> outage d = None \<longrightarrow>
      status (fst (post_api_track b request s)) = 200) \<and>
   (stored (snd (post_api_track b request s)) ''trafficevent'' = stored s ''trafficevent'' \<or>
    (\<exists>p doc. b ''path'' = Some (JStr p) \<and> map_of doc ''path'' = Some (PStr p) \<and>
       stored (snd (post_api_track b request s)) ''trafficevent'' =
         stored s ''trafficevent'' @ [doc]))"
proof (intro conjI impI allI)
  assume "\<forall>p. b ''path'' \<noteq> Some (JStr p)"
  then obtain errs where "validate_TrackEventIn b = Inl errs"
    using validate_missing_path by blast
  then show "status (fst (post_api_track b request s)) = 422"
    and "snd (post_api_track b request s) = s"
    by (simp_all add: post_api_track_def)
next
  fix p d
  assume a: "b ''path'' = Some (JStr p) \<and> b ''event'' \<noteq> Some JNull \<and> s = Some d \<and> outage d = None"
  then obtain event source where v: "validate_TrackEventIn b = Inr (TrackEventIn p event source)"
    using validate_string_path by blast
  from a have up: "outage d = None" and s: "s = Some d" by simp_all
  show "status (fst (post_api_track b request s)) = 200"
    unfolding post_api_track_def v s
    by (simp add: track_event_ok[OF up] del: track_event.simps)
next
  show "stored (snd (post_api_track b request s)) ''trafficevent'' = stored s ''trafficevent'' \<or>
    (\<exists>p doc. b ''path'' = Some (JStr p) \<and> map_of doc ''path'' = Some (PStr p) \<and>
       stored (snd (post_api_track b request s)) ''trafficevent'' =
         stored s ''trafficevent'' @ [doc])"
  proof (cases "validate_TrackEventIn b")
    case (Inl errs)
    then show ?thesis by (simp add: post_api_track_def)
  next
    case (Inr payload)
    obtain path event source where p: "payload = TrackEventIn path event source"
      by (cases payload)
    have bp: "b ''path'' = Some (JStr path)"
      using Inr p validate_Inr_path by simp
    show ?thesis
    proof (cases "\<exists>d. s = Some d \<and> outage d = None")
      case True
      then obtain d where s: "s = Some d" and up: "outage d = None" by blast
      have "stored (snd (post_api_track b request s)) ''trafficevent'' =
         stored s ''trafficevent'' @
           [new_document d (TrafficEvent path source event
              (map_of (headers request) ''user-agent'') (peer_or_forwarded request))]"
        unfolding post_api_track_def Inr p s
        by (simp add: track_event_ok[OF up] stored_def documents_update del: track_event.simps)
      moreover have "map_of (new_document d (TrafficEvent path source event
              (map_of (headers request) ''user-agent'') (peer_or_forwarded request))) ''path'' =
            Some (PStr path)"
        by (simp add: new_document_def)
      ultimately show ?thesis using bp by blast
    next
      case False
      then have "stored (snd (track_event payload request s)) ''trafficevent'' =
          stored s ''trafficevent''"
        by (rule track_event_fail_stored)
      then show ?thesis
        by (simp add: post_api_track_store[OF Inr])
    qed
  qed
qed

theorem post_api_track_path_witness:
  "no_path_body ''path'' = None \<and>
   post_api_track no_path_body direct_request (Some demo_db) =
     (\<lparr>status = 422, content = Validation [Field_required ''path'']\<rparr>, Some demo_db) \<and>
   empty_path_body ''path'' = Some (JStr []) \<and> empty_path_body ''event'' = None \<and>
   outage demo_db = None \<and>
   fst (post_api_track empty_path_body direct_request (Some demo_db)) =
     \<lparr>status = 200, content = Id (hex24 0)\<rparr>"
  using post_api_track_path[of no_path_body direct_request "Some demo_db"]
    post_api_track_path[of empty_path_body direct_request "Some demo_db"]
  by (simp add: post_api_track_def validate_TrackEventIn_def path_errors_def event_errors_def
        empty_path_body_def no_path_body_def direct_request_def demo_db_def create_document_def
        documents_def timestamps_def opt_val_def stored_def)

section \<open>Reads, writes and sequences of calls\<close>

lemma get_documents_store: "snd (get_documents c filt limit s) = s"
  by (simp add: get_documents_def split: option.splits)

lemma get_stats_store: "snd (get_stats path event limit s) = s"
  using get_documents_store[of "''trafficevent''" "stats_filter path event"
      "case limit of Some n \<Rightarrow> n | None \<Rightarrow> 50" s]
  by (cases "get_documents ''trafficevent'' (stats_filter path event)
        (case limit of Some n \<Rightarrow> n | None \<Rightarrow> 50) s";
      cases "fst (get_documents ''trafficevent'' (stats_filter path event)
        (case limit of Some n \<Rightarrow> n | None \<Rightarrow> 50) s)")
     (auto simp: get_stats_def)

lemma handler_read_only: "\<not> is_write c \<Longrightarrow> snd (handler c s) = s"
  by (cases c) (simp_all add: split_beta get_stats_store)

lemma track_event_extends:
  "\<exists>new. stored (snd (track_event payload request s)) c = stored s c @ new \<and> length new \<le> 1"
proof (cases "\<exists>d. s = Some d \<and> outage d = None")
  case True
  then obtain d where s: "s = Some d" and up: "outage d = None" by blast
  obtain path event source where p: "payload = TrackEventIn path event source"
    by (cases payload)
  show ?thesis unfolding s p track_event_ok[OF up]
    by (simp add: stored_def documents_update)
next
  case False
  then have "stored (snd (track_event payload request s)) c = stored s c"
    by (rule track_event_fail_stored)
  then show ?thesis by simp
qed

lemma handler_extends:
  "\<exists>new. stored (snd (handler c s)) k = stored s k @ new \<and>
     length new \<le> (if is_write c then 1 else 0)"
proof (cases "is_write c")
  case True
  then obtain payload request where c: "c = Track payload request" by (cases c) auto
  show ?thesis using track_event_extends[of payload request s k]
    by (auto simp: c split: prod.splits)
next
  case False
  then show ?thesis by (simp add: handler_read_only)
qed

lemma serve_extends:
  "\<exists>new. stored (snd (serve cs s)) k = stored s k @ new \<and> length new \<le> length (filter is_write cs)"
proof (induction cs arbitrary: s)
  case Nil
  then show ?case by simp
next
  case (Cons c cs)
  obtain r s1 where h: "handler c s = (r, s1)" by (cases "handler c s")
  obtain rs s2 where sv: "serve cs s1 = (rs, s2)" by (cases "serve cs s1")
  from handler_extends[of c s k] h obtain n1 where
    1: "stored s1 k = stored s k @ n1" "length n1 \<le> (if is_write c then 1 else 0)" by auto
  from Cons.IH[of s1] sv obtain n2 where
    2: "stored s2 k = stored s1 k @ n2" "length n2 \<le> length (filter is_write cs)" by auto
  have "stored s2 k = stored s k @ (n1 @ n2)" using 1 2 by simp
  moreover have "length (n1 @ n2) \<le> length (filter is_write (c # cs))" using 1 2 by auto
  ultimately show ?case using h sv by auto
qed

text \<open>
  C8. After any sequence of calls of the three handlers, the event collection is what
  it was before with new documents added at its end, at most one for each call of
  \<^verbatim>\<open>track_event\<close>: no stored document is changed or removed. A call of the stats or of
  the diagnostics handler leaves the whole store as it was.
\<close>

theorem serve_append_only:
  "(\<exists>new. stored (snd (serve cs s)) ''trafficevent'' = stored s ''trafficevent'' @ new \<and>
          length new \<le> length (filter is_write cs)) \<and>
   (\<forall>c. \<not> is_write c \<longrightarrow> snd (handler c s) = s)"
  using serve_extends[of cs s "''trafficevent''"] handler_read_only by blast

text \<open>
  C7. An omitted \<^verbatim>\<open>limit\<close> is the limit 50. With limit \<open>n\<close> the operation returns at most
  \<open>n\<close> records; the handler passes the limit on as it is, with no ceiling of its own:
  the number of records returned is \<open>n\<close> whenever the store holds at least \<open>n\<close>
  matching documents, whatever \<open>n\<close> is.
\<close>

theorem stats_limit:
  "get_stats path event None s = get_stats path event (Some 50) s \<and>
   (\<forall>out s'. get_stats path event (Some n) s = (Inr out, s') \<longrightarrow>
      length (items out) \<le> nat n \<and>
      length (items out) =
        min (nat n) (length (filter (matches (stats_filter path event)) (stored s ''trafficevent''))))"
proof -
  have 1: "get_stats path event None s = get_stats path event (Some 50) s"
    by (simp add: get_stats_def)
  have 2: "length (items out) =
        min (nat n) (length (filter (matches (stats_filter path event)) (stored s ''trafficevent'')))"
    if "get_stats path event (Some n) s = (Inr out, s')" for out s'
    using that
    by (auto simp: get_stats_def get_documents_def normalize_all_map stored_def min_def
             split: option.splits)
  show ?thesis using 1 2 by auto
qed


theorem stats_limit_witness:
  "get_stats None None None (Some seeded_db) = get_stats None None (Some 50) (Some seeded_db) \<and>
   get_stats None None (Some 1) (Some seeded_db) =
     (Inr (StatsOut
        [[(''_id'', PStr (hex24 1)), (''path'', PStr (ustr ''/home'')),
          (''event'', PStr (ustr ''view'')),
          (''created_at'', PStr (ustr ''2024-04-30 09:00:00'')), (''updated_at'', PNone)]]),
      Some seeded_db) \<and>
   length (filter (matches (stats_filter None None)) (stored (Some seeded_db) ''trafficevent'')) = 2"
  using stats_limit[of None None "Some seeded_db" 1]
  by (simp add: eval_defs stored_def)

theorem serve_append_only_witness:
  "stored (snd (serve [Track home_visit direct_request, Stats None None None, Test None]
      (Some demo_db))) ''trafficevent'' =
     stored (Some demo_db) ''trafficevent'' @
       [[(''_id'', PObjectId 0), (''path'', PStr (ustr ''/home'')),
         (''event'', PStr (ustr ''view'')), (''source'', PStr (ustr ''newsletter'')),
         (''user_agent'', PStr (ustr ''TestAgent/1.0'')),
         (''ip'', PStr (ustr ''203.0.113.9''))]] \<and>
   \<not> is_write (Test None) \<and> snd (handler (Test None) (Some demo_db)) = Some demo_db"
  using serve_append_only[of "[Track home_visit direct_request, Stats None None None, Test None]"
      "Some demo_db"]
  by (simp add: home_visit_def direct_request_def demo_db_def create_document_def documents_def
        timestamps_def opt_val_def stored_def get_stats_store split_beta)

section \<open>The records returned under the data model\<close>










lemma optional_timestamp_zero: "\<not> optional_timestamp (Some (PInt 0))"
  by (simp add: optional_timestamp_def)

end
